theory Spec2Isabelle
  imports Main
begin

section \<open>Python values shared by the models\<close>

text \<open>
  Python exceptions are values of \<open>error\<close>; a function that can raise returns
  \<open>error + 'a\<close>, with \<open>Inl\<close> the exception. \<open>Raised\<close> stands for any
  exception that comes out of a helper whose code is outside the files modelled here.
\<close>

datatype error =
    AssertionError string
  | IndexError string
  | Raised string

text \<open>
  \<open>str.strip()\<close> with no argument removes leading and trailing whitespace. Strings are
  lists of code points below 256; Python's whitespace in that range is TAB, LF, VT, FF,
  CR, the separators 0x1C to 0x1F, SPACE, NEL (0x85) and NBSP (0xA0).
\<close>

definition is_space :: "char \<Rightarrow> bool" where
  "is_space c = (c \<in> set [CHR 0x09, CHR 0x0A, CHR 0x0B, CHR 0x0C, CHR 0x0D,
                             CHR 0x1C, CHR 0x1D, CHR 0x1E, CHR 0x1F, CHR 0x20,
                             CHR 0x85, CHR 0xA0])"

definition strip :: "string \<Rightarrow> string" where
  "strip s = rev (dropWhile is_space (rev (dropWhile is_space s)))"

section \<open>Mistral: \<open>mirascope/core/mistral/_utils/_setup_call.py\<close>\<close>

subsection \<open>Messages\<close>

text \<open>
  The content of a Mistral SDK message is a string or a list of content chunks; the code
  tests for both with \<open>isinstance\<close> and does nothing for a content that is neither,
  so a third case is kept for it.
\<close>

datatype content_chunk = TextChunk (chunk_text: string) | OtherChunk string

datatype content =
    ContentStr string
  | ContentList "content_chunk list"
  | ContentOther

text \<open>
  A message object is its Python class together with its \<open>role\<close> and \<open>content\<close>
  attributes. \<open>setup_call\<close> reads \<open>role\<close> as an attribute and never looks at the
  class, so the two are kept apart.
\<close>

datatype message_class =
    BaseMessageParamC
  | AssistantMessageC
  | SystemMessageC
  | ToolMessageC
  | UserMessageC

record message =
  cls :: message_class
  role :: string
  content :: content

text \<open>\<open>UserMessage(content=...)\<close>: the SDK's constructor, \<open>role\<close> defaulting to "user".\<close>

definition UserMessage :: "content \<Rightarrow> message" where
  "UserMessage c = \<lparr>cls = UserMessageC, role = ''user'', content = c\<rparr>"

text \<open>The four classes of the return annotation of \<open>setup_call\<close> (source lines 56, 78, 100).\<close>

fun is_mistral_message :: "message \<Rightarrow> bool" where
  "is_mistral_message m =
     (case cls m of
        AssistantMessageC \<Rightarrow> True
      | SystemMessageC \<Rightarrow> True
      | ToolMessageC \<Rightarrow> True
      | UserMessageC \<Rightarrow> True
      | BaseMessageParamC \<Rightarrow> False)"

subsection \<open>Call keyword arguments, tools, client\<close>

datatype response_format = ResponseFormat (rf_type: string)

text \<open>
  \<open>MistralCallKwargs\<close> is a dict from keyword names to values. Only the values that
  \<open>setup_call\<close> writes have a shape here; everything the call parameters bring along
  (tool schemas, temperature, ...) is \<open>KwOther\<close>.
\<close>

datatype kwarg =
    KwStr string
  | KwMessages "message list"
  | KwResponseFormat response_format
  | KwOther string

type_synonym call_kwargs = "string \<rightharpoonup> kwarg"

text \<open>A tool type is a class (a subclass of \<open>MistralTool\<close>), known by its name.\<close>

datatype tool_type = MistralTool (tool_name: string)

datatype client = Mistral (api_key: string)

text \<open>
  The bound methods \<open>client.chat.complete\<close>, \<open>client.chat.stream\<close>,
  \<open>client.chat.complete_async\<close> and \<open>client.chat.stream_async\<close>, and the two wrappers
  \<open>get_create_fn(create, stream)\<close> and \<open>get_async_create_fn(create, stream)\<close> built from
  them. The wrappers' code is outside this file; they are kept symbolic, so that a wrapper
  is known by which builder made it and from which methods.
\<close>

datatype chat_method =
    complete client
  | stream client
  | complete_async client
  | stream_async client

datatype create_fn =
    get_create_fn chat_method chat_method
  | get_async_create_fn chat_method chat_method

subsection \<open>Helpers the function calls\<close>

text \<open>
  \<open>setup_call\<close> calls five functions that live in other modules:
  the provider-independent \<open>_utils.setup_call\<close> (here \<open>base_setup_call\<close>, the arguments
  \<open>MistralTool\<close> and \<open>convert_common_call_params\<close> being constants of the call),
  \<open>convert_message_params\<close>, \<open>_utils.json_mode_content\<close>, \<open>fn_is_async\<close> and
  \<open>mistral.load_api_key\<close>. They are parameters of the model: every statement below
  holds for whatever these functions compute. The first two may raise. The decorated
  function, its arguments, the dynamic configuration, the tools and the call parameters
  are only handed on to \<open>base_setup_call\<close>; their types stay open.
\<close>

record ('fn, 'args, 'config, 'tools, 'params) helpers =
  base_setup_call ::
    "'fn \<Rightarrow> 'args \<Rightarrow> 'config \<Rightarrow> 'tools \<Rightarrow> 'params
       \<Rightarrow> error + (string option \<times> message list \<times> tool_type list option \<times> call_kwargs)"
  convert_message_params :: "message list \<Rightarrow> error + message list"
  json_mode_content :: "tool_type option \<Rightarrow> string"
  fn_is_async :: "'fn \<Rightarrow> bool"
  load_api_key :: string

subsection \<open>The function\<close>

text \<open>
  Source lines 130 to 136. \<open>messages[-1]\<close> raises IndexError on an empty list. With role
  "user" the text is appended to the content, as a \<open>TextChunk\<close> to a list and by
  \<open>+=\<close> to a string; a content that is neither stays as it is. With any other role a
  new \<open>UserMessage\<close> with the stripped text is appended to the list.

  The Python updates the last message object in place. The model has values, not object
  identities: it rewrites the last position of the list.
\<close>

definition merge_json_mode_content :: "string \<Rightarrow> message list \<Rightarrow> error + message list" where
  "merge_json_mode_content json_text messages =
     (if messages = [] then Inl (IndexError ''list index out of range'')
      else if role (last messages) = ''user'' then
        (case content (last messages) of
           ContentList chunks \<Rightarrow>
             Inr (butlast messages @
                  [(last messages)\<lparr>content := ContentList (chunks @ [TextChunk json_text])\<rparr>])
         | ContentStr s \<Rightarrow>
             Inr (butlast messages @
                  [(last messages)\<lparr>content := ContentStr (s @ json_text)\<rparr>])
         | ContentOther \<Rightarrow> Inr messages)
      else Inr (messages @ [UserMessage (ContentStr (strip json_text))]))"

text \<open>
  Source lines 125 to 140: the json-mode branch, the extract branch (the \<open>assert\<close> fails
  on \<open>None\<close> and on the empty list), or neither. \<open>tool_types[0] if tool_types else None\<close>
  is the first case distinction.
\<close>

definition first_tool_type :: "tool_type list option \<Rightarrow> tool_type option" where
  "first_tool_type tool_types =
     (case tool_types of Some (t # _) \<Rightarrow> Some t | _ \<Rightarrow> None)"

definition apply_modes ::
  "('fn, 'args, 'config, 'tools, 'params) helpers \<Rightarrow> bool \<Rightarrow> bool \<Rightarrow> tool_type list option
     \<Rightarrow> message list \<Rightarrow> call_kwargs \<Rightarrow> error + (message list \<times> call_kwargs)" where
  "apply_modes h json_mode extract tool_types messages call_kwargs =
     (if json_mode then
        (let call_kwargs = call_kwargs(''response_format'' \<mapsto> KwResponseFormat (ResponseFormat ''json_object''));
             json_text = json_mode_content h (first_tool_type tool_types)
         in case merge_json_mode_content json_text messages of
              Inl e \<Rightarrow> Inl e
            | Inr messages \<Rightarrow> Inr (messages, call_kwargs(''tools'' := None)))
      else if extract then
        (case tool_types of
           Some (t # ts) \<Rightarrow> Inr (messages, call_kwargs(''tool_choice'' \<mapsto> KwStr ''any''))
         | _ \<Rightarrow> Inl (AssertionError ''At least one tool must be provided for extraction.''))
      else Inr (messages, call_kwargs))"

type_synonym setup_result =
  "create_fn \<times> string option \<times> message list \<times> tool_type list option \<times> call_kwargs"

text \<open>
  Source lines 84 to 151. The parameter \<open>stream\<close> is accepted and never read.
\<close>

definition setup_call ::
  "('fn, 'args, 'config, 'tools, 'params) helpers \<Rightarrow> string \<Rightarrow> client option \<Rightarrow> 'fn \<Rightarrow> 'args
     \<Rightarrow> 'config \<Rightarrow> 'tools \<Rightarrow> bool \<Rightarrow> 'params \<Rightarrow> bool \<Rightarrow> bool \<Rightarrow> error + setup_result" where
  "setup_call h model client fn fn_args dynamic_config tools json_mode call_params extract stream_flag =
     (case base_setup_call h fn fn_args dynamic_config tools call_params of
        Inl e \<Rightarrow> Inl e
      | Inr (prompt_template, messages, tool_types, base_call_kwargs) \<Rightarrow>
          (case convert_message_params h messages of
             Inl e \<Rightarrow> Inl e
           | Inr messages \<Rightarrow>
               (case apply_modes h json_mode extract tool_types messages base_call_kwargs of
                  Inl e \<Rightarrow> Inl e
                | Inr (messages, call_kwargs) \<Rightarrow>
                    (let call_kwargs = call_kwargs ++ [''model'' \<mapsto> KwStr model,
                                                       ''messages'' \<mapsto> KwMessages messages];
                         client = (case client of None \<Rightarrow> Mistral (load_api_key h) | Some c \<Rightarrow> c);
                         create_or_stream =
                           (if fn_is_async h fn
                            then get_async_create_fn (complete_async client) (stream_async client)
                            else get_create_fn (complete client) (stream client))
                     in Inr (create_or_stream, prompt_template, messages, tool_types, call_kwargs)))))"

subsection \<open>An example call\<close>

text \<open>
  The call of \<open>examples/learn/calls/error_handling/mistral/shorthand.py\<close>:
  \<open>recommend_book("fantasy")\<close> under \<open>@mistral.call("mistral-large-latest")\<close>, whose
  prompt is the one user message "Recommend a fantasy book". The helpers below are
  stand-ins that the closed instances of the theorems run on: a base set-up that returns
  this message and adds the tool schemas when tools are given, a converter that gives a
  provider-neutral message the SDK class of its role, and an instruction text with
  leading newlines.
\<close>

definition example_convert_message :: "message \<Rightarrow> message" where
  "example_convert_message m =
     (if cls m = BaseMessageParamC
      then m\<lparr>cls := (if role m = ''assistant'' then AssistantMessageC
                     else if role m = ''system'' then SystemMessageC
                     else if role m = ''tool'' then ToolMessageC
                     else UserMessageC)\<rparr>
      else m)"

definition example_helpers ::
  "(string, (string \<times> string) list, unit, tool_type list option, call_kwargs) helpers" where
  "example_helpers =
     \<lparr>base_setup_call = (\<lambda>fn fn_args dynamic_config tools call_params.
        Inr (None,
             [\<lparr>cls = BaseMessageParamC, role = ''user'',
               content = ContentStr ''Recommend a fantasy book''\<rparr>],
             tools,
             (case tools of Some (t # ts) \<Rightarrow> call_params(''tools'' \<mapsto> KwOther ''schemas'')
                          | _ \<Rightarrow> call_params))),
      convert_message_params = (\<lambda>ms. Inr (map example_convert_message ms)),
      json_mode_content = (\<lambda>t. [CHR 0x0A, CHR 0x0A] @ ''Only respond with JSON.''),
      fn_is_async = (\<lambda>fn. fn = ''recommend_book_async''),
      load_api_key = ''key''\<rparr>"

section \<open>Cohere: \<open>CohereCallResponseChunk\<close>\<close>

text \<open>
  The stream events of the Cohere SDK that \<open>tests/core/cohere/test_call_response_chunk.py\<close>
  builds: the start of a stream, a piece of generated text, and the end of a stream with
  its finish reason and the whole response. Token counts are carried and never computed
  with, so their type stays open.
\<close>

record 'n api_meta_billed_units =
  billed_input_tokens :: "'n option"
  billed_output_tokens :: "'n option"

record 'n api_meta =
  billed_units :: "'n api_meta_billed_units option"

record 'n non_streamed_chat_response =
  response_generation_id :: "string option"
  response_text :: string
  meta :: "'n api_meta option"

datatype 'n streamed_chat_response =
    StreamedChatResponse_StreamStart (generation_id: string)
  | StreamedChatResponse_TextGeneration (generated_text: string)
  | StreamedChatResponse_StreamEnd (finish_reason: string) (response: "'n non_streamed_chat_response")

text \<open>
  Modelled from the spec: the class \<open>CohereCallResponseChunk\<close> of
  \<open>mirascope/core/cohere/call_response_chunk.py\<close> is not among the source files; only its
  test is. The wrapper and its properties \<open>content\<close>, \<open>finish_reasons\<close>, \<open>model\<close>,
  \<open>id\<close>, \<open>usage\<close>, \<open>input_tokens\<close> and \<open>output_tokens\<close> follow the statement of
  the claim and the assertions of the test; where neither speaks (the content and the
  finish reasons of a start event, the usage of a response without meta data) the
  property is empty.
\<close>

datatype 'n cohere_call_response_chunk =
  CohereCallResponseChunk (chunk: "'n streamed_chat_response")

text \<open>Modelled from the spec: the property \<open>content\<close>, the text of a text-generation event.\<close>

fun chunk_content :: "'n cohere_call_response_chunk \<Rightarrow> string" where
  "chunk_content (CohereCallResponseChunk (StreamedChatResponse_TextGeneration t)) = t"
| "chunk_content (CohereCallResponseChunk (StreamedChatResponse_StreamStart g)) = ''''"
| "chunk_content (CohereCallResponseChunk (StreamedChatResponse_StreamEnd f r)) = ''''"

text \<open>Modelled from the spec: the property \<open>finish_reasons\<close>, set by a stream-end event only.\<close>

fun chunk_finish_reasons :: "'n cohere_call_response_chunk \<Rightarrow> string list option" where
  "chunk_finish_reasons (CohereCallResponseChunk (StreamedChatResponse_StreamEnd f r)) = Some [f]"
| "chunk_finish_reasons (CohereCallResponseChunk (StreamedChatResponse_StreamStart g)) = None"
| "chunk_finish_reasons (CohereCallResponseChunk (StreamedChatResponse_TextGeneration t)) = None"

text \<open>Modelled from the spec: the property \<open>model\<close>; no event names a model.\<close>

definition chunk_model :: "'n cohere_call_response_chunk \<Rightarrow> string option" where
  "chunk_model c = None"

text \<open>
  Modelled from the spec: the property \<open>id\<close>, the generation id of a start event
  (test line 33) or of the response of an end event.
\<close>

fun chunk_id :: "'n cohere_call_response_chunk \<Rightarrow> string option" where
  "chunk_id (CohereCallResponseChunk (StreamedChatResponse_StreamStart g)) = Some g"
| "chunk_id (CohereCallResponseChunk (StreamedChatResponse_StreamEnd f r)) = response_generation_id r"
| "chunk_id (CohereCallResponseChunk (StreamedChatResponse_TextGeneration t)) = None"

text \<open>Modelled from the spec: the property \<open>usage\<close>, the billed units of an end event's response.\<close>

fun chunk_usage :: "'n cohere_call_response_chunk \<Rightarrow> 'n api_meta_billed_units option" where
  "chunk_usage (CohereCallResponseChunk (StreamedChatResponse_StreamEnd f r)) =
     (case meta r of None \<Rightarrow> None | Some m \<Rightarrow> billed_units m)"
| "chunk_usage (CohereCallResponseChunk (StreamedChatResponse_StreamStart g)) = None"
| "chunk_usage (CohereCallResponseChunk (StreamedChatResponse_TextGeneration t)) = None"

text \<open>
  Modelled from the spec: the properties \<open>input_tokens\<close> and \<open>output_tokens\<close>, read
  off the usage.
\<close>

definition chunk_input_tokens :: "'n cohere_call_response_chunk \<Rightarrow> 'n option" where
  "chunk_input_tokens c =
     (case chunk_usage c of None \<Rightarrow> None | Some u \<Rightarrow> billed_input_tokens u)"

definition chunk_output_tokens :: "'n cohere_call_response_chunk \<Rightarrow> 'n option" where
  "chunk_output_tokens c =
     (case chunk_usage c of None \<Rightarrow> None | Some u \<Rightarrow> billed_output_tokens u)"

text \<open>The objects of \<open>test_cohere_call_response_chunk\<close> (test lines 17 to 29).\<close>

definition test_usage :: "int api_meta_billed_units" where
  "test_usage = \<lparr>billed_input_tokens = Some 1, billed_output_tokens = Some 1\<rparr>"

definition test_chunk_start :: "int streamed_chat_response" where
  "test_chunk_start = StreamedChatResponse_StreamStart ''id''"

definition test_chunk :: "int streamed_chat_response" where
  "test_chunk = StreamedChatResponse_TextGeneration ''content''"

definition test_chunk_finish :: "int streamed_chat_response" where
  "test_chunk_finish =
     StreamedChatResponse_StreamEnd ''COMPLETE''
       \<lparr>response_generation_id = Some ''id'', response_text = ''content'',
        meta = Some \<lparr>billed_units = Some test_usage\<rparr>\<rparr>"

section \<open>Logfire: \<open>mirascope/integrations/logfire/_utils.py\<close>\<close>

text \<open>
  Modelled from the spec: the module \<open>mirascope/integrations/logfire/_utils.py\<close> is not
  among the source files; only \<open>tests/integrations/logfire/test_utils.py\<close> is. The
  functions below follow the statements of the claims and what the tests assert of
  \<open>get_call_response_span_data\<close>, \<open>get_stream_span_data\<close>, \<open>get_tool_calls\<close>,
  \<open>get_output\<close> and the six handlers.

  Span attributes are Python values: \<open>None\<close>, booleans, integers, strings, lists and
  dicts. A dict is an association list in insertion order; assigning to a key that is
  present replaces its value in place.
\<close>

datatype pyval =
    PyNone
  | PyBool bool
  | PyInt int
  | PyStr string
  | PyList "pyval list"
  | PyDict "(string \<times> pyval) list"

type_synonym py_dict = "(string \<times> pyval) list"

fun dict_set :: "string \<Rightarrow> pyval \<Rightarrow> py_dict \<Rightarrow> py_dict" where
  "dict_set k v [] = [(k, v)]"
| "dict_set k v ((k', v') # d) = (if k' = k then (k, v) # d else (k', v') # dict_set k v d)"

definition dict_get :: "py_dict \<Rightarrow> string \<Rightarrow> pyval option" where
  "dict_get d k = map_of d k"

text \<open>
  What the handlers read of their argument: of a tool its class name and its arguments,
  of a call response and of a stream the attributes that the tests compare, of a
  response-model result either the model and the call response behind it or the
  structured stream with the model it has built.
\<close>

record base_tool =
  tool_class_name :: string
  tool_args :: py_dict

record call_response =
  cr_call_params :: pyval
  cr_call_kwargs :: pyval
  cr_model :: pyval
  cr_provider :: pyval
  cr_prompt_template :: pyval
  cr_fn_args :: pyval
  cr_messages :: pyval
  cr_response :: pyval
  cr_cost :: pyval
  cr_input_tokens :: pyval
  cr_output_tokens :: pyval
  cr_content :: pyval
  cr_tools :: "base_tool list option"

record base_stream =
  st_user_message_param :: pyval
  st_call_params :: pyval
  st_call_kwargs :: pyval
  st_model :: pyval
  st_provider :: pyval
  st_prompt_template :: pyval
  st_fn_args :: pyval
  st_cost :: pyval
  st_message_param :: py_dict

datatype response_model_result =
    BaseModel (model_value: pyval) (model_response: call_response)
  | BaseStructuredStream (constructed_response_model: pyval) (structured_stream: base_stream)

text \<open>
  Modelled from the spec: the span. A span is known by a number, and the state of the
  tracer is, for each span, the list of attribute dicts that \<open>set_attributes\<close> has been
  called with: what the tests read off their mock span as \<open>call_count\<close> and
  \<open>call_args\<close>. A handler gets the span, or \<open>None\<close>, and returns Python's \<open>None\<close>
  together with the new state.
\<close>

type_synonym spans = "nat \<Rightarrow> py_dict list"

definition set_attributes :: "nat \<Rightarrow> py_dict \<Rightarrow> spans \<Rightarrow> spans" where
  "set_attributes s attributes spans = spans(s := spans s @ [attributes])"

text \<open>
  Modelled from the spec: \<open>get_call_response_span_data\<close>, the nine entries that
  \<open>test_get_call_response_span_data\<close> compares (test lines 167 to 175).
\<close>

definition get_call_response_span_data :: "call_response \<Rightarrow> py_dict" where
  "get_call_response_span_data result =
     [(''async'', PyBool False),
      (''call_params'', cr_call_params result),
      (''call_kwargs'', cr_call_kwargs result),
      (''model'', cr_model result),
      (''provider'', cr_provider result),
      (''prompt_template'', cr_prompt_template result),
      (''template_variables'', cr_fn_args result),
      (''messages'', cr_messages result),
      (''response_data'', cr_response result)]"

text \<open>
  Modelled from the spec: \<open>get_tool_calls\<close> as in \<open>test_get_tool_calls\<close>, one dict
  per tool, and \<open>None\<close> when the response has no tools (an empty list is not told apart
  from \<open>None\<close>).
\<close>

definition get_tool_calls :: "call_response \<Rightarrow> pyval list option" where
  "get_tool_calls result =
     (case cr_tools result of
        Some (t # ts) \<Rightarrow>
          Some (map (\<lambda>tool. PyDict [(''function'',
                         PyDict [(''arguments'', PyDict (tool_args tool)),
                                 (''name'', PyStr (tool_class_name tool))])]) (t # ts))
      | _ \<Rightarrow> None)"

text \<open>
  Modelled from the spec: \<open>get_output\<close> as in \<open>test_get_output\<close>, the cost, the token
  counts and the content.
\<close>

definition get_output :: "call_response \<Rightarrow> py_dict" where
  "get_output result =
     [(''cost'', cr_cost result),
      (''input_tokens'', cr_input_tokens result),
      (''output_tokens'', cr_output_tokens result),
      (''content'', cr_content result)]"

text \<open>
  Modelled from the spec: \<open>get_stream_span_data\<close> as in \<open>test_get_stream_span_data\<close>.
  The messages are the one user message, and the output holds the cost and the content of
  the stream's message.
\<close>

definition get_stream_span_data :: "base_stream \<Rightarrow> py_dict" where
  "get_stream_span_data s =
     [(''messages'', PyList [st_user_message_param s]),
      (''call_params'', st_call_params s),
      (''call_kwargs'', st_call_kwargs s),
      (''model'', st_model s),
      (''provider'', st_provider s),
      (''prompt_template'', st_prompt_template s),
      (''template_variables'', st_fn_args s),
      (''output'', PyDict [(''cost'', st_cost s),
                           (''content'', (case dict_get (st_message_param s) ''content'' of
                                            None \<Rightarrow> PyNone | Some c \<Rightarrow> c))])]"

text \<open>
  Modelled from the spec: the handlers \<open>handle_call_response\<close>, \<open>handle_stream\<close>,
  \<open>handle_base_model\<close> and their async variants. Each returns at once without a span.
  The tests patch the data functions to return an empty dict and still find \<open>"async"\<close>
  in it afterwards, so every handler writes that entry itself: \<open>False\<close> in the sync
  handler, \<open>True\<close> in the async one. \<open>handle_call_response\<close> adds the tool calls to the
  output when there are any; \<open>handle_base_model\<close> adds the response model to the output,
  of the call response behind a model or of the stream behind a structured stream.
\<close>

definition handle_call_response :: "call_response \<Rightarrow> nat option \<Rightarrow> spans \<Rightarrow> pyval \<times> spans" where
  "handle_call_response result span spans =
     (case span of
        None \<Rightarrow> (PyNone, spans)
      | Some s \<Rightarrow>
          (let output = get_output result;
               span_data = get_call_response_span_data result;
               span_data = dict_set ''async'' (PyBool False) span_data;
               output = (case get_tool_calls result of
                           Some tool_calls \<Rightarrow> dict_set ''tool_calls'' (PyList tool_calls) output
                         | None \<Rightarrow> output);
               span_data = dict_set ''output'' (PyDict output) span_data
           in (PyNone, set_attributes s span_data spans)))"

definition handle_call_response_async :: "call_response \<Rightarrow> nat option \<Rightarrow> spans \<Rightarrow> pyval \<times> spans" where
  "handle_call_response_async result span spans =
     (case span of
        None \<Rightarrow> (PyNone, spans)
      | Some s \<Rightarrow>
          (let output = get_output result;
               span_data = get_call_response_span_data result;
               span_data = dict_set ''async'' (PyBool True) span_data;
               output = (case get_tool_calls result of
                           Some tool_calls \<Rightarrow> dict_set ''tool_calls'' (PyList tool_calls) output
                         | None \<Rightarrow> output);
               span_data = dict_set ''output'' (PyDict output) span_data
           in (PyNone, set_attributes s span_data spans)))"

definition handle_stream :: "base_stream \<Rightarrow> nat option \<Rightarrow> spans \<Rightarrow> pyval \<times> spans" where
  "handle_stream strm span spans =
     (case span of
        None \<Rightarrow> (PyNone, spans)
      | Some s \<Rightarrow>
          (let span_data = get_stream_span_data strm;
               span_data = dict_set ''async'' (PyBool False) span_data
           in (PyNone, set_attributes s span_data spans)))"

definition handle_stream_async :: "base_stream \<Rightarrow> nat option \<Rightarrow> spans \<Rightarrow> pyval \<times> spans" where
  "handle_stream_async strm span spans =
     (case span of
        None \<Rightarrow> (PyNone, spans)
      | Some s \<Rightarrow>
          (let span_data = get_stream_span_data strm;
               span_data = dict_set ''async'' (PyBool True) span_data
           in (PyNone, set_attributes s span_data spans)))"

definition handle_base_model :: "response_model_result \<Rightarrow> nat option \<Rightarrow> spans \<Rightarrow> pyval \<times> spans" where
  "handle_base_model result span spans =
     (case span of
        None \<Rightarrow> (PyNone, spans)
      | Some s \<Rightarrow>
          (let span_data =
                 (case result of
                    BaseModel m r \<Rightarrow>
                      (let span_data = get_call_response_span_data r;
                           output = get_output r;
                           output = dict_set ''response_model'' m output
                       in dict_set ''output'' (PyDict output) span_data)
                  | BaseStructuredStream m strm \<Rightarrow>
                      (let span_data = get_stream_span_data strm;
                           output = (case dict_get span_data ''output'' of
                                       Some (PyDict d) \<Rightarrow> d | _ \<Rightarrow> []);
                           output = dict_set ''response_model'' m output
                       in dict_set ''output'' (PyDict output) span_data));
               span_data = dict_set ''async'' (PyBool False) span_data
           in (PyNone, set_attributes s span_data spans)))"

definition handle_base_model_async :: "response_model_result \<Rightarrow> nat option \<Rightarrow> spans \<Rightarrow> pyval \<times> spans" where
  "handle_base_model_async result span spans =
     (case span of
        None \<Rightarrow> (PyNone, spans)
      | Some s \<Rightarrow>
          (let span_data =
                 (case result of
                    BaseModel m r \<Rightarrow>
                      (let span_data = get_call_response_span_data r;
                           output = get_output r;
                           output = dict_set ''response_model'' m output
                       in dict_set ''output'' (PyDict output) span_data)
                  | BaseStructuredStream m strm \<Rightarrow>
                      (let span_data = get_stream_span_data strm;
                           output = (case dict_get span_data ''output'' of
                                       Some (PyDict d) \<Rightarrow> d | _ \<Rightarrow> []);
                           output = dict_set ''response_model'' m output
                       in dict_set ''output'' (PyDict output) span_data));
               span_data = dict_set ''async'' (PyBool True) span_data
           in (PyNone, set_attributes s span_data spans)))"

text \<open>
  The objects of the tests: the tool and the call response of \<open>test_get_tool_calls\<close>,
  with the cost, token counts and content of \<open>test_get_output\<close>, and the stream of
  \<open>test_get_stream_span_data\<close>.
\<close>

definition test_format_book :: base_tool where
  "test_format_book =
     \<lparr>tool_class_name = ''FormatBook'',
      tool_args = [(''title'', PyStr ''The Name of the Wind''),
                   (''author'', PyStr ''Rothfuss, Patrick'')]\<rparr>"

definition test_user_message :: pyval where
  "test_user_message =
     PyDict [(''role'', PyStr ''user''),
             (''content'', PyList [PyDict [(''type'', PyStr ''text''),
                (''text'', PyStr ''Recommend a nonfiction book for me to read.'')]])]"

definition test_call_response :: call_response where
  "test_call_response =
     \<lparr>cr_call_params = PyDict [(''tool_choice'', PyStr ''required'')],
      cr_call_kwargs = PyDict [(''tool_choice'', PyStr ''required''), (''tools'', PyList []),
                               (''model'', PyStr ''gpt-4o''), (''messages'', PyList [test_user_message])],
      cr_model = PyStr ''gpt-4o'',
      cr_provider = PyStr ''test'',
      cr_prompt_template = PyStr ''Recommend a {genre} book for me to read.'',
      cr_fn_args = PyDict [(''genre'', PyStr ''nonfiction'')],
      cr_messages = PyList [test_user_message],
      cr_response = PyStr ''hello world'',
      cr_cost = PyInt 10,
      cr_input_tokens = PyInt 1,
      cr_output_tokens = PyInt 2,
      cr_content = PyStr ''content'',
      cr_tools = Some [test_format_book]\<rparr>"

definition test_stream :: base_stream where
  "test_stream =
     \<lparr>st_user_message_param = PyDict [(''role'', PyStr ''user''), (''content'', PyStr ''mock_message'')],
      st_call_params = PyDict [(''a'', PyStr ''b'')],
      st_call_kwargs = PyDict [(''c'', PyStr ''d'')],
      st_model = PyStr ''model'',
      st_provider = PyStr ''test'',
      st_prompt_template = PyStr ''prompt_template'',
      st_fn_args = PyDict [(''hello'', PyStr ''world'')],
      st_cost = PyInt 10,
      st_message_param = [(''role'', PyStr ''assistant''), (''content'', PyStr ''mock_message_param'')]\<rparr>"

section \<open>Properties of the Mistral \<open>setup_call\<close>\<close>

subsection \<open>The json-mode merge and the two modes\<close>

lemma merge_json_mode_content_empty:
  "merge_json_mode_content t [] = Inl (IndexError ''list index out of range'')"
  by (simp add: merge_json_mode_content_def)

lemma merge_json_mode_content_returns:
  "ms \<noteq> [] \<Longrightarrow> \<exists>ms'. merge_json_mode_content t ms = Inr ms'"
  by (simp add: merge_json_mode_content_def split: content.split)

lemma merge_json_mode_content_user_list:
  assumes "merge_json_mode_content t ms = Inr ms'" "role (last ms) = ''user''"
    "content (last ms) = ContentList chunks"
  shows "length ms' = length ms \<and> last ms' = (last ms)\<lparr>content := ContentList (chunks @ [TextChunk t])\<rparr>"
  using assms by (auto simp: merge_json_mode_content_def split: if_splits)

lemma merge_json_mode_content_user_str:
  assumes "merge_json_mode_content t ms = Inr ms'" "role (last ms) = ''user''"
    "content (last ms) = ContentStr s"
  shows "length ms' = length ms \<and> last ms' = (last ms)\<lparr>content := ContentStr (s @ t)\<rparr>"
  using assms by (auto simp: merge_json_mode_content_def split: if_splits)

lemma merge_json_mode_content_user_other:
  assumes "merge_json_mode_content t ms = Inr ms'" "role (last ms) = ''user''"
    "content (last ms) = ContentOther"
  shows "ms' = ms"
  using assms by (auto simp: merge_json_mode_content_def split: if_splits)

lemma merge_json_mode_content_not_user:
  assumes "merge_json_mode_content t ms = Inr ms'" "role (last ms) \<noteq> ''user''"
  shows "ms' = ms @ [UserMessage (ContentStr (strip t))]"
  using assms by (auto simp: merge_json_mode_content_def split: if_splits)

lemma merge_json_mode_content_classes:
  assumes "merge_json_mode_content t ms = Inr ms'" "list_all is_mistral_message ms"
  shows "list_all is_mistral_message ms'"
proof -
  from assms(1) have ne: "ms \<noteq> []"
    by (auto simp: merge_json_mode_content_def split: if_splits)
  have front: "list_all is_mistral_message (butlast ms)"
    using assms(2) by (auto simp: list_all_iff dest: in_set_butlastD)
  have final: "is_mistral_message (last ms)"
    using assms(2) ne by (simp add: list_all_iff)
  show ?thesis
  proof (cases "role (last ms) = ''user''")
    case False
    with assms ne have "ms' = ms @ [UserMessage (ContentStr (strip t))]"
      by (simp add: merge_json_mode_content_def)
    with assms(2) show ?thesis by (simp add: UserMessage_def)
  next
    case True
    show ?thesis
    proof (cases "content (last ms)")
      case (ContentStr s)
      with assms(1) True ne
      have "ms' = butlast ms @ [(last ms)\<lparr>content := ContentStr (s @ t)\<rparr>]"
        by (simp add: merge_json_mode_content_def)
      with front final show ?thesis by simp
    next
      case (ContentList chunks)
      with assms(1) True ne
      have "ms' = butlast ms @ [(last ms)\<lparr>content := ContentList (chunks @ [TextChunk t])\<rparr>]"
        by (simp add: merge_json_mode_content_def)
      with front final show ?thesis by simp
    next
      case ContentOther
      with assms(1) True ne have "ms' = ms"
        by (simp add: merge_json_mode_content_def)
      with assms(2) show ?thesis by simp
    qed
  qed
qed

lemma apply_modes_json:
  "apply_modes h True extract_flag tool_types ms kw =
     (case merge_json_mode_content (json_mode_content h (first_tool_type tool_types)) ms of
        Inl e \<Rightarrow> Inl e
      | Inr ms' \<Rightarrow> Inr (ms', (kw(''response_format'' \<mapsto> KwResponseFormat (ResponseFormat ''json_object'')))(''tools'' := None)))"
  by (simp add: apply_modes_def Let_def)

lemma apply_modes_extract:
  "apply_modes h False True tool_types ms kw =
     (case tool_types of
        Some (t # ts) \<Rightarrow> Inr (ms, kw(''tool_choice'' \<mapsto> KwStr ''any''))
      | _ \<Rightarrow> Inl (AssertionError ''At least one tool must be provided for extraction.''))"
  by (simp add: apply_modes_def)

lemma apply_modes_plain:
  "apply_modes h False False tool_types ms kw = Inr (ms, kw)"
  by (simp add: apply_modes_def)

text \<open>How the function's result is built from the results of its helpers.\<close>

lemma setup_call_unfold:
  assumes "base_setup_call h fn fn_args dynamic_config tools call_params =
             Inr (prompt_template, messages0, tool_types, base_call_kwargs)"
      and "convert_message_params h messages0 = Inr converted"
  shows "setup_call h model client fn fn_args dynamic_config tools json_mode call_params extract_flag stream_flag =
     (case apply_modes h json_mode extract_flag tool_types converted base_call_kwargs of
        Inl e \<Rightarrow> Inl e
      | Inr (messages, call_kwargs) \<Rightarrow>
          Inr (if fn_is_async h fn
               then get_async_create_fn
                      (complete_async (case client of None \<Rightarrow> Mistral (load_api_key h) | Some c \<Rightarrow> c))
                      (stream_async (case client of None \<Rightarrow> Mistral (load_api_key h) | Some c \<Rightarrow> c))
               else get_create_fn
                      (complete (case client of None \<Rightarrow> Mistral (load_api_key h) | Some c \<Rightarrow> c))
                      (stream (case client of None \<Rightarrow> Mistral (load_api_key h) | Some c \<Rightarrow> c)),
               prompt_template, messages, tool_types,
               call_kwargs ++ [''model'' \<mapsto> KwStr model, ''messages'' \<mapsto> KwMessages messages]))"
  using assms by (simp add: setup_call_def Let_def split: sum.split prod.split)

lemma setup_call_returned:
  assumes "setup_call h model client fn fn_args dynamic_config tools json_mode call_params extract_flag stream_flag =
             Inr (create, prompt_template, messages, tool_types, call_kwargs)"
  shows "\<exists>messages0 base_call_kwargs converted kw.
           base_setup_call h fn fn_args dynamic_config tools call_params =
             Inr (prompt_template, messages0, tool_types, base_call_kwargs)
         \<and> convert_message_params h messages0 = Inr converted
         \<and> apply_modes h json_mode extract_flag tool_types converted base_call_kwargs = Inr (messages, kw)
         \<and> call_kwargs = kw ++ [''model'' \<mapsto> KwStr model, ''messages'' \<mapsto> KwMessages messages]
         \<and> create = (if fn_is_async h fn
               then get_async_create_fn
                      (complete_async (case client of None \<Rightarrow> Mistral (load_api_key h) | Some c \<Rightarrow> c))
                      (stream_async (case client of None \<Rightarrow> Mistral (load_api_key h) | Some c \<Rightarrow> c))
               else get_create_fn
                      (complete (case client of None \<Rightarrow> Mistral (load_api_key h) | Some c \<Rightarrow> c))
                      (stream (case client of None \<Rightarrow> Mistral (load_api_key h) | Some c \<Rightarrow> c)))"
  using assms by (auto simp: setup_call_def Let_def split: sum.splits prod.splits)

subsection \<open>The example call\<close>

lemma example_strip:
  "strip ([CHR 0x0A, CHR 0x0A] @ ''Only respond with JSON.'') = ''Only respond with JSON.''"
  by (simp add: strip_def is_space_def)

lemma example_base:
  "base_setup_call example_helpers fn fn_args dynamic_config tools call_params =
     Inr (None,
          [\<lparr>cls = BaseMessageParamC, role = ''user'',
            content = ContentStr ''Recommend a fantasy book''\<rparr>],
          tools,
          (case tools of Some (t # ts) \<Rightarrow> call_params(''tools'' \<mapsto> KwOther ''schemas'')
                       | _ \<Rightarrow> call_params))"
  by (simp add: example_helpers_def)

lemma example_convert:
  "convert_message_params example_helpers
     [\<lparr>cls = BaseMessageParamC, role = ''user'', content = ContentStr ''Recommend a fantasy book''\<rparr>] =
   Inr [\<lparr>cls = UserMessageC, role = ''user'', content = ContentStr ''Recommend a fantasy book''\<rparr>]"
  by (simp add: example_helpers_def example_convert_message_def)

lemma example_json_mode_content:
  "json_mode_content example_helpers t = [CHR 0x0A, CHR 0x0A] @ ''Only respond with JSON.''"
  by (simp add: example_helpers_def)

lemma example_convert_classes:
  "convert_message_params example_helpers ms = Inr ms' \<Longrightarrow> list_all is_mistral_message ms'"
  by (auto simp: example_helpers_def example_convert_message_def list_all_iff
           split: message_class.splits if_splits)

subsection \<open>Claims\<close>

text \<open>
  Claim C1. A call with \<open>json_mode=True\<close> that gets its messages from the helpers and
  has a last converted message returns; the returned \<open>call_kwargs\<close> map
  "response_format" to \<open>ResponseFormat(type="json_object")\<close> and have no key "tools".
  The instruction text is merged into the final message: when the last converted message
  has role "user", the list keeps its length and the text is appended to that message's
  content, as a \<open>TextChunk\<close> when the content is a list and by concatenation when it is a
  string; otherwise a new \<open>UserMessage\<close> holding the stripped text is appended to the list.
\<close>

theorem setup_call_json_mode:
  assumes "base_setup_call h fn fn_args dynamic_config tools call_params =
             Inr (prompt_template, messages0, tool_types, base_call_kwargs)"
      and "convert_message_params h messages0 = Inr converted"
      and "converted \<noteq> []"
  shows "\<exists>create messages call_kwargs.
           setup_call h model client fn fn_args dynamic_config tools True call_params extract_flag stream_flag =
             Inr (create, prompt_template, messages, tool_types, call_kwargs)
         \<and> call_kwargs ''response_format'' = Some (KwResponseFormat (ResponseFormat ''json_object''))
         \<and> call_kwargs ''tools'' = None
         \<and> (role (last converted) = ''user'' \<longrightarrow>
               length messages = length converted
             \<and> (\<forall>chunks. content (last converted) = ContentList chunks \<longrightarrow>
                   last messages = (last converted)\<lparr>content :=
                     ContentList (chunks @ [TextChunk (json_mode_content h (first_tool_type tool_types))])\<rparr>)
             \<and> (\<forall>s. content (last converted) = ContentStr s \<longrightarrow>
                   last messages = (last converted)\<lparr>content :=
                     ContentStr (s @ json_mode_content h (first_tool_type tool_types))\<rparr>))
         \<and> (role (last converted) \<noteq> ''user'' \<longrightarrow>
               messages = converted @
                 [UserMessage (ContentStr (strip (json_mode_content h (first_tool_type tool_types))))])"
proof -
  let ?t = "json_mode_content h (first_tool_type tool_types)"
  from assms(3) obtain ms' where m: "merge_json_mode_content ?t converted = Inr ms'"
    using merge_json_mode_content_returns by blast
  let ?kw = "(base_call_kwargs(''response_format'' \<mapsto> KwResponseFormat (ResponseFormat ''json_object'')))(''tools'' := None)"
  let ?kw' = "?kw ++ [''model'' \<mapsto> KwStr model, ''messages'' \<mapsto> KwMessages ms']"
  have ret: "\<exists>create. setup_call h model client fn fn_args dynamic_config tools True call_params extract_flag stream_flag =
               Inr (create, prompt_template, ms', tool_types, ?kw')"
    by (simp add: setup_call_unfold [OF assms(1,2)] apply_modes_json m)
  have rf: "?kw' ''response_format'' = Some (KwResponseFormat (ResponseFormat ''json_object''))"
    by simp
  have tl: "?kw' ''tools'' = None"
    by simp
  have user: "role (last converted) = ''user'' \<longrightarrow>
               length ms' = length converted
             \<and> (\<forall>chunks. content (last converted) = ContentList chunks \<longrightarrow>
                   last ms' = (last converted)\<lparr>content := ContentList (chunks @ [TextChunk ?t])\<rparr>)
             \<and> (\<forall>s. content (last converted) = ContentStr s \<longrightarrow>
                   last ms' = (last converted)\<lparr>content := ContentStr (s @ ?t)\<rparr>)"
    using m merge_json_mode_content_user_list [OF m] merge_json_mode_content_user_str [OF m]
      merge_json_mode_content_user_other [OF m]
    by (cases "content (last converted)") auto
  have other: "role (last converted) \<noteq> ''user'' \<longrightarrow>
                 ms' = converted @ [UserMessage (ContentStr (strip ?t))]"
    using merge_json_mode_content_not_user [OF m] by blast
  from ret obtain create where
    "setup_call h model client fn fn_args dynamic_config tools True call_params extract_flag stream_flag =
       Inr (create, prompt_template, ms', tool_types, ?kw')" ..
  with rf tl user other show ?thesis
    by (intro exI [of _ create] exI [of _ ms'] exI [of _ ?kw']) simp
qed

theorem setup_call_json_mode_witness:
  "\<exists>create messages call_kwargs.
     setup_call example_helpers ''mistral-large-latest'' None ''recommend_book''
       [(''genre'', ''fantasy'')] () (Some [MistralTool ''Book'']) True Map.empty False False =
       Inr (create, None, messages, Some [MistralTool ''Book''], call_kwargs)
   \<and> call_kwargs ''response_format'' = Some (KwResponseFormat (ResponseFormat ''json_object''))
   \<and> call_kwargs ''tools'' = None
   \<and> length messages = 1
   \<and> last messages =
       \<lparr>cls = UserMessageC, role = ''user'',
        content = ContentStr (''Recommend a fantasy book'' @ [CHR 0x0A, CHR 0x0A] @ ''Only respond with JSON.'')\<rparr>"
  using setup_call_json_mode [where h = example_helpers and model = "''mistral-large-latest''"
      and client = None and fn = "''recommend_book''" and fn_args = "[(''genre'', ''fantasy'')]"
      and dynamic_config = "()" and tools = "Some [MistralTool ''Book'']" and call_params = Map.empty
      and extract_flag = False and stream_flag = False, OF example_base example_convert]
  by (simp add: example_json_mode_content)

text \<open>
  What the claim leaves open: without a last message the call raises IndexError, and a
  last message of role "user" whose content is neither a list nor a string is left as it is.
\<close>

lemma setup_call_json_mode_no_messages:
  assumes "base_setup_call h fn fn_args dynamic_config tools call_params =
             Inr (prompt_template, messages0, tool_types, base_call_kwargs)"
      and "convert_message_params h messages0 = Inr []"
  shows "setup_call h model client fn fn_args dynamic_config tools True call_params extract_flag stream_flag =
           Inl (IndexError ''list index out of range'')"
  by (simp add: setup_call_unfold [OF assms] apply_modes_json merge_json_mode_content_empty)

lemma setup_call_json_mode_other_content:
  assumes "base_setup_call h fn fn_args dynamic_config tools call_params =
             Inr (prompt_template, messages0, tool_types, base_call_kwargs)"
      and "convert_message_params h messages0 = Inr converted"
      and "converted \<noteq> []" "role (last converted) = ''user''" "content (last converted) = ContentOther"
  shows "\<exists>create call_kwargs.
           setup_call h model client fn fn_args dynamic_config tools True call_params extract_flag stream_flag =
             Inr (create, prompt_template, converted, tool_types, call_kwargs)"
  using assms(3-5)
  by (simp add: setup_call_unfold [OF assms(1,2)] apply_modes_json merge_json_mode_content_def)

text \<open>
  Claim C2. A call with \<open>extract=True\<close> and \<open>json_mode=False\<close>, for which the helpers
  have produced the tool types and the converted messages, raises an AssertionError if and
  only if the list of tool types is \<open>None\<close> or empty; when it is non-empty the call
  returns, and the returned \<open>call_kwargs\<close> map "tool_choice" to "any".
\<close>

theorem setup_call_extract:
  assumes "base_setup_call h fn fn_args dynamic_config tools call_params =
             Inr (prompt_template, messages0, tool_types, base_call_kwargs)"
      and "convert_message_params h messages0 = Inr converted"
  shows "((\<exists>msg. setup_call h model client fn fn_args dynamic_config tools False call_params True stream_flag =
                  Inl (AssertionError msg))
          = (tool_types = None \<or> tool_types = Some []))
       \<and> (tool_types \<noteq> None \<and> tool_types \<noteq> Some [] \<longrightarrow>
            (\<exists>create call_kwargs.
               setup_call h model client fn fn_args dynamic_config tools False call_params True stream_flag =
                 Inr (create, prompt_template, converted, tool_types, call_kwargs)
             \<and> call_kwargs ''tool_choice'' = Some (KwStr ''any'')))"
proof (cases tool_types)
  case None
  then show ?thesis
    by (simp add: setup_call_unfold [OF assms] apply_modes_extract)
next
  case (Some ts)
  then show ?thesis
    by (cases ts) (simp_all add: setup_call_unfold [OF assms] apply_modes_extract)
qed

theorem setup_call_extract_witness:
  "(\<exists>msg. setup_call example_helpers ''mistral-large-latest'' None ''recommend_book''
            [(''genre'', ''fantasy'')] () (Some []) False Map.empty True False =
            Inl (AssertionError msg))
   \<and> (\<exists>create call_kwargs.
        setup_call example_helpers ''mistral-large-latest'' None ''recommend_book''
          [(''genre'', ''fantasy'')] () (Some [MistralTool ''Book'']) False Map.empty True False =
          Inr (create, None,
               [\<lparr>cls = UserMessageC, role = ''user'', content = ContentStr ''Recommend a fantasy book''\<rparr>],
               Some [MistralTool ''Book''], call_kwargs)
      \<and> call_kwargs ''tool_choice'' = Some (KwStr ''any''))"
  using setup_call_extract [where h = example_helpers and model = "''mistral-large-latest''"
      and client = None and fn = "''recommend_book''" and fn_args = "[(''genre'', ''fantasy'')]"
      and dynamic_config = "()" and tools = "Some []" and call_params = Map.empty
      and stream_flag = False, OF example_base example_convert]
    setup_call_extract [where h = example_helpers and model = "''mistral-large-latest''"
      and client = None and fn = "''recommend_book''" and fn_args = "[(''genre'', ''fantasy'')]"
      and dynamic_config = "()" and tools = "Some [MistralTool ''Book'']" and call_params = Map.empty
      and stream_flag = False, OF example_base example_convert]
  by simp

text \<open>
  Claim C3. In the tuple a call returns, the create function is the async wrapper
  \<open>get_async_create_fn(client.chat.complete_async, client.chat.stream_async)\<close> exactly when
  \<open>fn_is_async(fn)\<close> holds, and the sync wrapper
  \<open>get_create_fn(client.chat.complete, client.chat.stream)\<close> exactly when it does not; the
  client is the one passed in, or \<open>Mistral(api_key=load_api_key())\<close> when none is.
\<close>

theorem setup_call_create_fn:
  assumes "setup_call h model client fn fn_args dynamic_config tools json_mode call_params extract_flag stream_flag =
             Inr (create, prompt_template, messages, tool_types, call_kwargs)"
      and "c = (case client of None \<Rightarrow> Mistral (load_api_key h) | Some given \<Rightarrow> given)"
  shows "(create = get_async_create_fn (complete_async c) (stream_async c)) = fn_is_async h fn
       \<and> (create = get_create_fn (complete c) (stream c)) = (\<not> fn_is_async h fn)"
proof -
  from setup_call_returned [OF assms(1)] assms(2)
  have "create = (if fn_is_async h fn then get_async_create_fn (complete_async c) (stream_async c)
                  else get_create_fn (complete c) (stream c))"
    by auto
  then show ?thesis
    by (cases "fn_is_async h fn") simp_all
qed

theorem setup_call_create_fn_witness:
  "\<exists>pt ms tts kw.
      setup_call example_helpers ''mistral-large-latest'' (Some (Mistral ''secret'')) ''recommend_book''
        [(''genre'', ''fantasy'')] () None False Map.empty False False =
        Inr (get_create_fn (complete (Mistral ''secret'')) (stream (Mistral ''secret'')), pt, ms, tts, kw)
    \<and> \<not> fn_is_async example_helpers ''recommend_book''"
proof -
  obtain create pt ms tts kw where r:
    "setup_call example_helpers ''mistral-large-latest'' (Some (Mistral ''secret'')) ''recommend_book''
        [(''genre'', ''fantasy'')] () None False Map.empty False False = Inr (create, pt, ms, tts, kw)"
    by (simp add: setup_call_unfold [OF example_base example_convert] apply_modes_plain)
  have "\<not> fn_is_async example_helpers ''recommend_book''"
    by (simp add: example_helpers_def)
  with setup_call_create_fn [OF r, of "Mistral ''secret''"] r show ?thesis
    by simp
qed

text \<open>
  What the function itself does to the classes of the messages: after the conversion it
  only changes the content of the last message or appends a \<open>UserMessage\<close>, so it
  keeps a list of SDK messages a list of SDK messages. That the list is one to begin with
  is the work of \<open>convert_message_params\<close>, whose code is in another module; the lemma
  takes it as a hypothesis and shows nothing about a list that was not converted.
\<close>

lemma setup_call_keeps_message_classes:
  assumes "setup_call h model client fn fn_args dynamic_config tools json_mode call_params extract_flag stream_flag =
             Inr (create, prompt_template, messages, tool_types, call_kwargs)"
      and "\<And>ms ms'. convert_message_params h ms = Inr ms' \<Longrightarrow> list_all is_mistral_message ms'"
  shows "list_all is_mistral_message messages"
proof -
  from setup_call_returned [OF assms(1)] obtain messages0 base_call_kwargs converted kw where
    c: "convert_message_params h messages0 = Inr converted" and
    a: "apply_modes h json_mode extract_flag tool_types converted base_call_kwargs = Inr (messages, kw)"
    by blast
  from assms(2) [OF c] have conv: "list_all is_mistral_message converted" .
  show ?thesis
  proof (cases json_mode)
    case True
    with a have "merge_json_mode_content (json_mode_content h (first_tool_type tool_types)) converted
                   = Inr messages"
      by (simp add: apply_modes_json split: sum.splits)
    from merge_json_mode_content_classes [OF this conv] show ?thesis .
  next
    case False
    with a have "messages = converted"
      by (cases extract_flag) (auto simp: apply_modes_extract apply_modes_plain split: option.splits list.splits)
    with conv show ?thesis by simp
  qed
qed

lemma setup_call_keeps_message_classes_example:
  "\<exists>create pt ms tts kw.
      setup_call example_helpers ''mistral-large-latest'' None ''recommend_book''
        [(''genre'', ''fantasy'')] () None True Map.empty False False = Inr (create, pt, ms, tts, kw)
    \<and> list_all is_mistral_message ms"
proof -
  obtain create pt ms tts kw where r:
    "setup_call example_helpers ''mistral-large-latest'' None ''recommend_book''
        [(''genre'', ''fantasy'')] () None True Map.empty False False = Inr (create, pt, ms, tts, kw)"
    by (simp add: setup_call_unfold [OF example_base example_convert] apply_modes_json
          merge_json_mode_content_def)
  from setup_call_keeps_message_classes [OF r example_convert_classes] r show ?thesis
    by simp
qed

text \<open>
  Claim C7. Whatever \<open>json_mode\<close> and \<open>extract\<close> are, the \<open>call_kwargs\<close> a call
  returns map "model" to the model string passed in and "messages" to the message list
  returned in the same tuple.
\<close>

theorem setup_call_model_messages:
  assumes "setup_call h model client fn fn_args dynamic_config tools json_mode call_params extract_flag stream_flag =
             Inr (create, prompt_template, messages, tool_types, call_kwargs)"
  shows "call_kwargs ''model'' = Some (KwStr model)
       \<and> call_kwargs ''messages'' = Some (KwMessages messages)"
  using setup_call_returned [OF assms] by auto

theorem setup_call_model_messages_witness:
  "\<exists>create pt ms tts kw.
      setup_call example_helpers ''mistral-large-latest'' None ''recommend_book''
        [(''genre'', ''fantasy'')] () None False Map.empty False False = Inr (create, pt, ms, tts, kw)
    \<and> kw ''model'' = Some (KwStr ''mistral-large-latest'')
    \<and> kw ''messages'' = Some (KwMessages ms)"
proof -
  obtain create pt ms tts kw where r:
    "setup_call example_helpers ''mistral-large-latest'' None ''recommend_book''
        [(''genre'', ''fantasy'')] () None False Map.empty False False = Inr (create, pt, ms, tts, kw)"
    by (simp add: setup_call_unfold [OF example_base example_convert] apply_modes_plain)
  from setup_call_model_messages [OF r] r show ?thesis
    by simp
qed

section \<open>Properties of the Cohere chunk wrapper\<close>

text \<open>
  Claim C4. The wrapper of a text-generation event has that event's text as its content,
  and its finish reasons, model, id, usage, input tokens and output tokens are all
  \<open>None\<close>. The wrapper of a stream-end event has the empty string as its content, the
  one-element list of the event's finish reason as its finish reasons, the response's
  generation id as its id, the billed units of the response's meta data as its usage, and
  the input and output token counts of these billed units as its token counts.
\<close>

theorem cohere_call_response_chunk:
  "chunk_content (CohereCallResponseChunk (StreamedChatResponse_TextGeneration t)) = t
   \<and> chunk_finish_reasons (CohereCallResponseChunk (StreamedChatResponse_TextGeneration t)) = None
   \<and> chunk_model (CohereCallResponseChunk (StreamedChatResponse_TextGeneration t)) = None
   \<and> chunk_id (CohereCallResponseChunk (StreamedChatResponse_TextGeneration t)) = None
   \<and> chunk_usage (CohereCallResponseChunk (StreamedChatResponse_TextGeneration t)) = None
   \<and> chunk_input_tokens (CohereCallResponseChunk (StreamedChatResponse_TextGeneration t)) = None
   \<and> chunk_output_tokens (CohereCallResponseChunk (StreamedChatResponse_TextGeneration t)) = None
   \<and> chunk_content (CohereCallResponseChunk (StreamedChatResponse_StreamEnd reason r)) = ''''
   \<and> chunk_finish_reasons (CohereCallResponseChunk (StreamedChatResponse_StreamEnd reason r)) = Some [reason]
   \<and> chunk_id (CohereCallResponseChunk (StreamedChatResponse_StreamEnd reason r)) = response_generation_id r
   \<and> (\<forall>m. meta r = Some m \<longrightarrow>
          chunk_usage (CohereCallResponseChunk (StreamedChatResponse_StreamEnd reason r)) = billed_units m
        \<and> (\<forall>u. billed_units m = Some u \<longrightarrow>
              chunk_input_tokens (CohereCallResponseChunk (StreamedChatResponse_StreamEnd reason r)) = billed_input_tokens u
            \<and> chunk_output_tokens (CohereCallResponseChunk (StreamedChatResponse_StreamEnd reason r)) = billed_output_tokens u))"
  by (simp add: chunk_model_def chunk_input_tokens_def chunk_output_tokens_def)

text \<open>The instance is the test itself: its fourteen assertions, in its order.\<close>

theorem cohere_call_response_chunk_witness:
  "chunk_id (CohereCallResponseChunk test_chunk_start) = Some ''id''
   \<and> chunk_content (CohereCallResponseChunk test_chunk) = ''content''
   \<and> chunk_finish_reasons (CohereCallResponseChunk test_chunk) = None
   \<and> chunk_model (CohereCallResponseChunk test_chunk) = None
   \<and> chunk_id (CohereCallResponseChunk test_chunk) = None
   \<and> chunk_usage (CohereCallResponseChunk test_chunk) = None
   \<and> chunk_input_tokens (CohereCallResponseChunk test_chunk) = None
   \<and> chunk_output_tokens (CohereCallResponseChunk test_chunk) = None
   \<and> chunk_content (CohereCallResponseChunk test_chunk_finish) = ''''
   \<and> chunk_id (CohereCallResponseChunk test_chunk_finish) = Some ''id''
   \<and> chunk_usage (CohereCallResponseChunk test_chunk_finish) = Some test_usage
   \<and> chunk_input_tokens (CohereCallResponseChunk test_chunk_finish) = Some 1
   \<and> chunk_output_tokens (CohereCallResponseChunk test_chunk_finish) = Some 1
   \<and> chunk_finish_reasons (CohereCallResponseChunk test_chunk_finish) = Some [''COMPLETE'']"
  using cohere_call_response_chunk [where t = "''content''" and reason = "''COMPLETE''"
      and r = "\<lparr>response_generation_id = Some ''id'', response_text = ''content'',
                meta = Some \<lparr>billed_units = Some test_usage\<rparr>\<rparr>"]
  by (simp add: test_chunk_start_def test_chunk_def test_chunk_finish_def test_usage_def)

section \<open>Properties of the Logfire handlers\<close>

lemma dict_get_dict_set:
  "dict_get (dict_set k v d) k' = (if k' = k then Some v else dict_get d k')"
  by (induction d) (auto simp: dict_get_def)

lemma dict_set_twice: "dict_set k v (dict_set k w d) = dict_set k v d"
  by (induction d) auto

lemma set_attributes_once:
  "set_attributes s d spans s = spans s @ [d]"
  "s' \<noteq> s \<Longrightarrow> set_attributes s d spans s' = spans s'"
  by (simp_all add: set_attributes_def)

lemma test_get_tool_calls:
  "get_tool_calls test_call_response =
     Some [PyDict [(''function'',
             PyDict [(''arguments'', PyDict [(''title'', PyStr ''The Name of the Wind''),
                                             (''author'', PyStr ''Rothfuss, Patrick'')]),
                     (''name'', PyStr ''FormatBook'')])]]"
  "get_tool_calls (test_call_response\<lparr>cr_tools := None\<rparr>) = None"
  by (simp_all add: get_tool_calls_def test_call_response_def test_format_book_def)

lemma test_get_output:
  "get_output test_call_response =
     [(''cost'', PyInt 10), (''input_tokens'', PyInt 1), (''output_tokens'', PyInt 2),
      (''content'', PyStr ''content'')]"
  by (simp add: get_output_def test_call_response_def)

lemma test_get_stream_span_data:
  "dict_get (get_stream_span_data test_stream) ''messages'' = Some (PyList [st_user_message_param test_stream])"
  "dict_get (get_stream_span_data test_stream) ''output'' =
     Some (PyDict [(''cost'', PyInt 10), (''content'', PyStr ''mock_message_param'')])"
  by (simp_all add: get_stream_span_data_def test_stream_def dict_get_def)

text \<open>
  Claim C8. For every call response and every span, \<open>handle_call_response\<close> calls the
  span's \<open>set_attributes\<close> exactly once. The dict it passes records \<open>"async"\<close> as
  \<open>False\<close> and the call parameters, call keyword arguments, model, provider, prompt
  template, template variables (the function's arguments), messages and raw response of
  the call response; its \<open>"output"\<close> is the output of the response (cost, token counts,
  content) with the response's tool calls added when there are any.
\<close>

theorem handle_call_response_span_data:
  "\<exists>span_data output.
     handle_call_response result (Some s) spans = (PyNone, spans(s := spans s @ [span_data]))
   \<and> dict_get span_data ''async'' = Some (PyBool False)
   \<and> dict_get span_data ''call_params'' = Some (cr_call_params result)
   \<and> dict_get span_data ''call_kwargs'' = Some (cr_call_kwargs result)
   \<and> dict_get span_data ''model'' = Some (cr_model result)
   \<and> dict_get span_data ''provider'' = Some (cr_provider result)
   \<and> dict_get span_data ''prompt_template'' = Some (cr_prompt_template result)
   \<and> dict_get span_data ''template_variables'' = Some (cr_fn_args result)
   \<and> dict_get span_data ''messages'' = Some (cr_messages result)
   \<and> dict_get span_data ''response_data'' = Some (cr_response result)
   \<and> dict_get span_data ''output'' = Some (PyDict output)
   \<and> dict_get output ''cost'' = Some (cr_cost result)
   \<and> dict_get output ''input_tokens'' = Some (cr_input_tokens result)
   \<and> dict_get output ''output_tokens'' = Some (cr_output_tokens result)
   \<and> dict_get output ''content'' = Some (cr_content result)
   \<and> dict_get output ''tool_calls'' = map_option PyList (get_tool_calls result)"
proof -
  let ?out = "case get_tool_calls result of
                Some tool_calls \<Rightarrow> dict_set ''tool_calls'' (PyList tool_calls) (get_output result)
              | None \<Rightarrow> get_output result"
  let ?d = "dict_set ''output'' (PyDict ?out)
              (dict_set ''async'' (PyBool False) (get_call_response_span_data result))"
  have run: "handle_call_response result (Some s) spans = (PyNone, spans(s := spans s @ [?d]))"
    by (simp add: handle_call_response_def Let_def set_attributes_def)
  have base: "dict_get (get_call_response_span_data result) k =
      map_of [(''async'', PyBool False), (''call_params'', cr_call_params result),
      (''call_kwargs'', cr_call_kwargs result), (''model'', cr_model result),
      (''provider'', cr_provider result), (''prompt_template'', cr_prompt_template result),
      (''template_variables'', cr_fn_args result), (''messages'', cr_messages result),
      (''response_data'', cr_response result)] k" for k
    by (simp add: get_call_response_span_data_def dict_get_def)
  have outp: "dict_get (get_output result) k =
      map_of [(''cost'', cr_cost result), (''input_tokens'', cr_input_tokens result),
      (''output_tokens'', cr_output_tokens result), (''content'', cr_content result)] k" for k
    by (simp add: get_output_def dict_get_def)
  have attrs: "dict_get ?d ''async'' = Some (PyBool False)"
    "dict_get ?d ''call_params'' = Some (cr_call_params result)"
    "dict_get ?d ''call_kwargs'' = Some (cr_call_kwargs result)"
    "dict_get ?d ''model'' = Some (cr_model result)"
    "dict_get ?d ''provider'' = Some (cr_provider result)"
    "dict_get ?d ''prompt_template'' = Some (cr_prompt_template result)"
    "dict_get ?d ''template_variables'' = Some (cr_fn_args result)"
    "dict_get ?d ''messages'' = Some (cr_messages result)"
    "dict_get ?d ''response_data'' = Some (cr_response result)"
    "dict_get ?d ''output'' = Some (PyDict ?out)"
    by (simp_all add: dict_get_dict_set base)
  have outs: "dict_get ?out ''cost'' = Some (cr_cost result)"
    "dict_get ?out ''input_tokens'' = Some (cr_input_tokens result)"
    "dict_get ?out ''output_tokens'' = Some (cr_output_tokens result)"
    "dict_get ?out ''content'' = Some (cr_content result)"
    "dict_get ?out ''tool_calls'' = map_option PyList (get_tool_calls result)"
    by (simp_all add: dict_get_dict_set outp split: option.split)
  from run attrs outs show ?thesis
    by (intro exI [of _ ?d] exI [of _ ?out]) simp
qed

theorem handle_call_response_span_data_witness:
  "\<exists>span_data.
     handle_call_response test_call_response (Some 0) (\<lambda>s. []) = (PyNone, (\<lambda>s. [])(0 := [span_data]))
   \<and> dict_get span_data ''async'' = Some (PyBool False)
   \<and> dict_get span_data ''response_data'' = Some (PyStr ''hello world'')
   \<and> dict_get span_data ''output'' =
       Some (PyDict [(''cost'', PyInt 10), (''input_tokens'', PyInt 1), (''output_tokens'', PyInt 2),
                     (''content'', PyStr ''content''),
                     (''tool_calls'', PyList [PyDict [(''function'',
                         PyDict [(''arguments'', PyDict [(''title'', PyStr ''The Name of the Wind''),
                                                         (''author'', PyStr ''Rothfuss, Patrick'')]),
                                 (''name'', PyStr ''FormatBook'')])]])])"
proof -
  from handle_call_response_span_data [of test_call_response 0 "\<lambda>s. []"]
  obtain span_data where
    r: "handle_call_response test_call_response (Some 0) (\<lambda>s. []) = (PyNone, (\<lambda>s. [])(0 := [span_data]))"
    and a: "dict_get span_data ''async'' = Some (PyBool False)"
    and d: "dict_get span_data ''response_data'' = Some (cr_response test_call_response)"
    by auto
  have "span_data = hd (snd (handle_call_response test_call_response (Some 0) (\<lambda>s. [])) 0)"
    using r by simp
  then have o: "dict_get span_data ''output'' =
       Some (PyDict [(''cost'', PyInt 10), (''input_tokens'', PyInt 1), (''output_tokens'', PyInt 2),
                     (''content'', PyStr ''content''),
                     (''tool_calls'', PyList [PyDict [(''function'',
                         PyDict [(''arguments'', PyDict [(''title'', PyStr ''The Name of the Wind''),
                                                         (''author'', PyStr ''Rothfuss, Patrick'')]),
                                 (''name'', PyStr ''FormatBook'')])]])])"
    by (simp add: handle_call_response_def Let_def set_attributes_def test_get_tool_calls
          test_get_output dict_get_def get_call_response_span_data_def)
  from r a d o show ?thesis
    by (intro exI [of _ span_data]) (simp add: test_call_response_def)
qed

text \<open>
  Claim C9. Each of the six handlers, given \<open>None\<close> for the span, returns \<open>None\<close> and
  leaves every span as it was, whatever the result is.
\<close>

theorem handlers_skip_without_span:
  "handle_call_response result None spans = (PyNone, spans)
   \<and> handle_call_response_async result None spans = (PyNone, spans)
   \<and> handle_stream strm None spans = (PyNone, spans)
   \<and> handle_stream_async strm None spans = (PyNone, spans)
   \<and> handle_base_model model_result None spans = (PyNone, spans)
   \<and> handle_base_model_async model_result None spans = (PyNone, spans)"
  by (simp add: handle_call_response_def handle_call_response_async_def handle_stream_def
        handle_stream_async_def handle_base_model_def handle_base_model_async_def)

theorem handlers_skip_without_span_witness:
  "handle_call_response test_call_response None (\<lambda>s. []) = (PyNone, (\<lambda>s. []))
   \<and> handle_stream_async test_stream None (\<lambda>s. []) = (PyNone, (\<lambda>s. []))
   \<and> handle_base_model (BaseModel PyNone test_call_response) None (\<lambda>s. []) = (PyNone, (\<lambda>s. []))"
  using handlers_skip_without_span [of test_call_response "\<lambda>s. []" test_stream
      "BaseModel PyNone test_call_response"]
  by simp

lemma sync_async_attributes:
  assumes "a = dict_set ''async'' (PyBool False) d" "b = dict_set ''async'' (PyBool True) d"
  shows "dict_get a ''async'' = Some (PyBool False) \<and> dict_get b ''async'' = Some (PyBool True)
       \<and> (\<forall>k. k \<noteq> ''async'' \<longrightarrow> dict_get a k = dict_get b k)"
  using assms by (simp add: dict_get_dict_set)

lemma sync_async_attributes_output:
  assumes "a = dict_set ''output'' v (dict_set ''async'' (PyBool False) d)"
          "b = dict_set ''output'' v (dict_set ''async'' (PyBool True) d)"
  shows "dict_get a ''async'' = Some (PyBool False) \<and> dict_get b ''async'' = Some (PyBool True)
       \<and> (\<forall>k. k \<noteq> ''async'' \<longrightarrow> dict_get a k = dict_get b k)"
  using assms by (simp add: dict_get_dict_set)

text \<open>
  Claim C10. For every result and every span, a sync handler and its async variant each
  call \<open>set_attributes\<close> once, and the two dicts they pass agree on every key but
  \<open>"async"\<close>, which is \<open>False\<close> from the sync handler and \<open>True\<close> from the async one.
  This holds for the call-response, the stream and the response-model handlers.
\<close>

theorem sync_async_handlers_agree:
  "(\<exists>a b. handle_call_response result (Some s) spans = (PyNone, spans(s := spans s @ [a]))
         \<and> handle_call_response_async result (Some s) spans = (PyNone, spans(s := spans s @ [b]))
         \<and> dict_get a ''async'' = Some (PyBool False)
         \<and> dict_get b ''async'' = Some (PyBool True)
         \<and> (\<forall>k. k \<noteq> ''async'' \<longrightarrow> dict_get a k = dict_get b k))
   \<and> (\<exists>a b. handle_stream strm (Some s) spans = (PyNone, spans(s := spans s @ [a]))
         \<and> handle_stream_async strm (Some s) spans = (PyNone, spans(s := spans s @ [b]))
         \<and> dict_get a ''async'' = Some (PyBool False)
         \<and> dict_get b ''async'' = Some (PyBool True)
         \<and> (\<forall>k. k \<noteq> ''async'' \<longrightarrow> dict_get a k = dict_get b k))
   \<and> (\<exists>a b. handle_base_model model_result (Some s) spans = (PyNone, spans(s := spans s @ [a]))
         \<and> handle_base_model_async model_result (Some s) spans = (PyNone, spans(s := spans s @ [b]))
         \<and> dict_get a ''async'' = Some (PyBool False)
         \<and> dict_get b ''async'' = Some (PyBool True)
         \<and> (\<forall>k. k \<noteq> ''async'' \<longrightarrow> dict_get a k = dict_get b k))"
proof (intro conjI)
  let ?out = "PyDict (case get_tool_calls result of
                Some tool_calls \<Rightarrow> dict_set ''tool_calls'' (PyList tool_calls) (get_output result)
              | None \<Rightarrow> get_output result)"
  let ?a = "dict_set ''output'' ?out (dict_set ''async'' (PyBool False) (get_call_response_span_data result))"
  let ?b = "dict_set ''output'' ?out (dict_set ''async'' (PyBool True) (get_call_response_span_data result))"
  have "handle_call_response result (Some s) spans = (PyNone, spans(s := spans s @ [?a]))"
       "handle_call_response_async result (Some s) spans = (PyNone, spans(s := spans s @ [?b]))"
    by (simp_all add: handle_call_response_def handle_call_response_async_def Let_def set_attributes_def)
  with sync_async_attributes_output [OF refl refl, of ?out "get_call_response_span_data result"]
  show "\<exists>a b. handle_call_response result (Some s) spans = (PyNone, spans(s := spans s @ [a]))
         \<and> handle_call_response_async result (Some s) spans = (PyNone, spans(s := spans s @ [b]))
         \<and> dict_get a ''async'' = Some (PyBool False)
         \<and> dict_get b ''async'' = Some (PyBool True)
         \<and> (\<forall>k. k \<noteq> ''async'' \<longrightarrow> dict_get a k = dict_get b k)"
    by blast
next
  let ?a = "dict_set ''async'' (PyBool False) (get_stream_span_data strm)"
  let ?b = "dict_set ''async'' (PyBool True) (get_stream_span_data strm)"
  have "handle_stream strm (Some s) spans = (PyNone, spans(s := spans s @ [?a]))"
       "handle_stream_async strm (Some s) spans = (PyNone, spans(s := spans s @ [?b]))"
    by (simp_all add: handle_stream_def handle_stream_async_def Let_def set_attributes_def)
  with sync_async_attributes [OF refl refl, of "get_stream_span_data strm"]
  show "\<exists>a b. handle_stream strm (Some s) spans = (PyNone, spans(s := spans s @ [a]))
         \<and> handle_stream_async strm (Some s) spans = (PyNone, spans(s := spans s @ [b]))
         \<and> dict_get a ''async'' = Some (PyBool False)
         \<and> dict_get b ''async'' = Some (PyBool True)
         \<and> (\<forall>k. k \<noteq> ''async'' \<longrightarrow> dict_get a k = dict_get b k)"
    by blast
next
  obtain d where
    "handle_base_model model_result (Some s) spans =
       (PyNone, spans(s := spans s @ [dict_set ''async'' (PyBool False) d]))"
    "handle_base_model_async model_result (Some s) spans =
       (PyNone, spans(s := spans s @ [dict_set ''async'' (PyBool True) d]))"
    by (cases model_result)
       (simp_all add: handle_base_model_def handle_base_model_async_def Let_def set_attributes_def)
  with sync_async_attributes [OF refl refl, of d]
  show "\<exists>a b. handle_base_model model_result (Some s) spans = (PyNone, spans(s := spans s @ [a]))
         \<and> handle_base_model_async model_result (Some s) spans = (PyNone, spans(s := spans s @ [b]))
         \<and> dict_get a ''async'' = Some (PyBool False)
         \<and> dict_get b ''async'' = Some (PyBool True)
         \<and> (\<forall>k. k \<noteq> ''async'' \<longrightarrow> dict_get a k = dict_get b k)"
    by blast
qed

theorem sync_async_handlers_agree_witness:
  "\<exists>a b. handle_stream test_stream (Some 0) (\<lambda>s. []) = (PyNone, (\<lambda>s. [])(0 := [a]))
       \<and> handle_stream_async test_stream (Some 0) (\<lambda>s. []) = (PyNone, (\<lambda>s. [])(0 := [b]))
       \<and> dict_get a ''async'' = Some (PyBool False)
       \<and> dict_get b ''async'' = Some (PyBool True)
       \<and> dict_get a ''model'' = dict_get b ''model''"
proof -
  from sync_async_handlers_agree [of test_call_response 0 "\<lambda>s. []" test_stream
      "BaseModel PyNone test_call_response"]
  obtain a b where
    "handle_stream test_stream (Some 0) (\<lambda>s. []) = (PyNone, (\<lambda>s. [])(0 := [] @ [a]))"
    "handle_stream_async test_stream (Some 0) (\<lambda>s. []) = (PyNone, (\<lambda>s. [])(0 := [] @ [b]))"
    "dict_get a ''async'' = Some (PyBool False)"
    "dict_get b ''async'' = Some (PyBool True)"
    "\<forall>k. k \<noteq> ''async'' \<longrightarrow> dict_get a k = dict_get b k"
    by blast
  then show ?thesis
    by (intro exI [of _ a] exI [of _ b]) simp
qed

end
